theory Spec2Isabelle
  imports Complex_Main "HOL-Library.Word" "HOL-Library.Signed_Division"
begin

section \<open>The collection launcher (services/launcher/launcher.go)\<close>

text \<open>
  A shallow embedding of \<^verbatim>\<open>launcher.go\<close>. Go structs are records, Go's
  \<^verbatim>\<open>(value, error)\<close> results are pairs or sums, and every call to a collaborator
  that lives outside the file (repository, inventory, datastore) is a call to a function of
  a parameter record, recorded in a trace of events.
\<close>

subsection \<open>Protocol messages\<close>

text \<open>\<^verbatim>\<open>actions_proto.VQLEnv\<close>: one environment entry of a compiled program.\<close>

record VQLEnv =
  Key :: string
  Value :: string

text \<open>
  \<^verbatim>\<open>actions_proto.VQLCollectorArgs\<close>: the compiled program. \<open>OpsPerSecond\<close> is a
  \<^verbatim>\<open>float32\<close> that the launcher only copies; \<open>Query\<close> stands for the query plan,
  which the launcher never inspects.
\<close>

record VQLCollectorArgs =
  OpsPerSecond :: real
  Timeout :: "64 word"
  MaxRow :: "64 word"
  Env :: "VQLEnv list"
  Tools :: "string list"
  Query :: "string list"

text \<open>\<^verbatim>\<open>flows_proto.ArtifactParameters\<close>: the overrides of a request.\<close>

record ArtifactParameters =
  Parameters_Env :: "VQLEnv list"

text \<open>
  \<^verbatim>\<open>flows_proto.ArtifactCollectorArgs\<close>: the request. \<open>Parameters\<close> is a pointer
  (\<open>None\<close> is \<^verbatim>\<open>nil\<close>); \<open>CompiledCollectorArgs\<close> is a slice, and \<open>None\<close> is the
  \<^verbatim>\<open>nil\<close> slice that line 187 tests for.
\<close>

record ArtifactCollectorArgs =
  ClientId :: string
  Artifacts :: "string list"
  Parameters :: "ArtifactParameters option"
  AllowCustomOverrides :: bool
  Urgent :: bool
  req_OpsPerSecond :: real
  req_Timeout :: "64 word"
  CompiledCollectorArgs :: "VQLCollectorArgs list option"

subsection \<open>Parameter overrides (lines 271--303)\<close>

text \<open>
  The loop of \<^verbatim>\<open>addOrReplaceParameter\<close> (lines 296--301): at the first entry whose
  key is the parameter's, the entry's value is assigned through the pointer and the function
  returns (\<open>Some\<close> of the updated entries); \<open>None\<close> when the loop runs to its end.
  Entries are modelled as values: the slice holds distinct non-nil pointers.
\<close>

fun addOrReplaceParameter_loop :: "VQLEnv \<Rightarrow> VQLEnv list \<Rightarrow> VQLEnv list option" where
  "addOrReplaceParameter_loop param [] = None"
| "addOrReplaceParameter_loop param (item # env) =
     (if Key item = Key param then Some (item\<lparr>Value := Value param\<rparr> # env)
      else map_option (Cons item) (addOrReplaceParameter_loop param env))"

text \<open>
  Go passes the slice header by value. \<open>local_env\<close> is the callee's variable
  \<^verbatim>\<open>env\<close> when the function returns, \<open>caller_env\<close> is what the caller's slice
  shows afterwards: the assignment through an entry's pointer is shared, the
  \<^verbatim>\<open>env = append(env, param)\<close> of line 302 changes the callee's header only.
\<close>

record env_views =
  caller_env :: "VQLEnv list"
  local_env :: "VQLEnv list"

definition addOrReplaceParameter :: "VQLEnv \<Rightarrow> VQLEnv list \<Rightarrow> env_views" where
  "addOrReplaceParameter param env =
     (case addOrReplaceParameter_loop param env of
        Some env' \<Rightarrow> \<lparr>caller_env = env', local_env = env'\<rparr>
      | None \<Rightarrow> \<lparr>caller_env = env, local_env = env @ [param]\<rparr>)"

text \<open>
  \<^verbatim>\<open>AddArtifactCollectorArgs\<close>: the loop of lines 284--286 over the request's
  overrides, each applied to the program's \<open>Env\<close>; the function's error is always
  \<^verbatim>\<open>nil\<close>, so the model returns the program alone.
\<close>

fun AddArtifactCollectorArgs_loop :: "VQLEnv list \<Rightarrow> VQLCollectorArgs \<Rightarrow> VQLCollectorArgs" where
  "AddArtifactCollectorArgs_loop [] vql_collector_args = vql_collector_args"
| "AddArtifactCollectorArgs_loop (item # items) vql_collector_args =
     AddArtifactCollectorArgs_loop items
       (vql_collector_args\<lparr>Env := caller_env (addOrReplaceParameter item (Env vql_collector_args))\<rparr>)"

definition AddArtifactCollectorArgs ::
  "VQLCollectorArgs \<Rightarrow> ArtifactCollectorArgs \<Rightarrow> VQLCollectorArgs" where
  "AddArtifactCollectorArgs vql_collector_args collector_request =
     (case Parameters collector_request of
        None \<Rightarrow> vql_collector_args
      | Some parameters \<Rightarrow>
          AddArtifactCollectorArgs_loop (Parameters_Env parameters) vql_collector_args)"

subsection \<open>Parameter overrides, with the entries behind their pointers\<close>

text \<open>
  \<^verbatim>\<open>env []*actions_proto.VQLEnv\<close> is a slice of pointers, and line 298 writes through
  the pointer. The model above takes the entries as values, which is what the code does when
  the pointers of the slice are pairwise distinct and the override is none of them. Here the
  entries live in a store, from addresses to entries, so that one entry can stand in the
  slice more than once, or be an override and an entry of the program at once. Pointers are
  taken to be non-nil.
\<close>

type_synonym ptr = nat

type_synonym store = "ptr \<Rightarrow> VQLEnv"

text \<open>
  The loop of lines 296--301: at the first pointer of the slice whose entry has the
  parameter's key, \<^verbatim>\<open>item.Value = param.Value\<close> updates the store at that address and
  the function returns (\<open>Some\<close> of the store afterwards); \<open>None\<close> when the loop runs to
  its end.
\<close>

fun addOrReplaceParameter_ptr_loop :: "ptr \<Rightarrow> ptr list \<Rightarrow> store \<Rightarrow> store option" where
  "addOrReplaceParameter_ptr_loop param [] s = None"
| "addOrReplaceParameter_ptr_loop param (item # env) s =
     (if Key (s item) = Key (s param)
      then Some (s(item := (s item)\<lparr>Value := Value (s param)\<rparr>))
      else addOrReplaceParameter_ptr_loop param env s)"

text \<open>
  \<^verbatim>\<open>addOrReplaceParameter\<close> returns nothing: the model gives the store when the function
  returns, and the callee's variable \<^verbatim>\<open>env\<close> at that moment (line 302 appends to it).
  The caller's slice is the list of pointers it passed, whatever the callee does.
\<close>

definition addOrReplaceParameter_ptr :: "ptr \<Rightarrow> ptr list \<Rightarrow> store \<Rightarrow> store \<times> ptr list" where
  "addOrReplaceParameter_ptr param env s =
     (case addOrReplaceParameter_ptr_loop param env s of
        Some s' \<Rightarrow> (s', env)
      | None \<Rightarrow> (s, env @ [param]))"

text \<open>
  \<^verbatim>\<open>AddArtifactCollectorArgs\<close> on a program whose \<^verbatim>\<open>Env\<close> is the slice \<open>env\<close>, for a
  request whose \<^verbatim>\<open>Parameters\<close> is \<^verbatim>\<open>nil\<close> (\<open>None\<close>) or has the slice \<open>items\<close> as
  its \<^verbatim>\<open>Env\<close>: the store after the loop of lines 284--286.
\<close>

fun AddArtifactCollectorArgs_ptr_loop :: "ptr list \<Rightarrow> ptr list \<Rightarrow> store \<Rightarrow> store" where
  "AddArtifactCollectorArgs_ptr_loop [] env s = s"
| "AddArtifactCollectorArgs_ptr_loop (item # items) env s =
     AddArtifactCollectorArgs_ptr_loop items env (fst (addOrReplaceParameter_ptr item env s))"

definition AddArtifactCollectorArgs_ptr :: "ptr list \<Rightarrow> ptr list option \<Rightarrow> store \<Rightarrow> store" where
  "AddArtifactCollectorArgs_ptr env parameters s =
     (case parameters of
        None \<Rightarrow> s
      | Some items \<Rightarrow> AddArtifactCollectorArgs_ptr_loop items env s)"

subsection \<open>Errors, tools, artifacts\<close>

text \<open>
  The errors of the file. \<open>UnknownArtifact name\<close> is
  \<^verbatim>\<open>errors.New("Unknown artifact " + name)\<close> (line 61, the spec's NotFound),
  \<open>ClientIdNotProvided\<close> is \<^verbatim>\<open>errors.New("Client id not provided.")\<close> (line 212,
  the spec's InvalidArgument), \<open>NoServerURLs\<close> is
  \<^verbatim>\<open>errors.New("No server URLs configured!")\<close> (line 161), and \<open>Upstream\<close> is an
  error that a collaborator returned.
\<close>

datatype error =
    UnknownArtifact string
  | ClientIdNotProvided
  | NoServerURLs
  | Upstream string

text \<open>\<^verbatim>\<open>artifacts_proto.Tool\<close>: a tool descriptor, as the inventory holds it.\<close>

record Tool =
  Name :: string
  Url :: string
  ServeLocally :: bool
  Filename :: string
  FilestorePath :: string
  Hash :: string

text \<open>
  \<^verbatim>\<open>artifacts_proto.Artifact\<close>. The launcher reads the tools an artifact declares;
  \<open>Sources\<close> stands for the rest of the definition, which only the repository reads.
\<close>

record Artifact =
  artifact_Name :: string
  artifact_Tools :: "Tool list"
  Sources :: "string list"

text \<open>\<^verbatim>\<open>config_obj.Client.ServerUrls\<close>, the one field of the configuration read here.\<close>

record Config =
  ServerUrls :: "string list"

subsection \<open>Sessions and tasks\<close>

text \<open>\<^verbatim>\<open>crypto_proto.GrrMessage\<close>: a delivery task.\<close>

record GrrMessage =
  SessionId :: string
  RequestId :: "64 word"
  VQLClientAction :: VQLCollectorArgs
  task_Urgent :: bool

text \<open>
  The lifecycle state of a session; \<^verbatim>\<open>ArtifactCollectorContext_RUNNING\<close> is the only
  value this file writes.
\<close>

datatype ArtifactCollectorContext_State = RUNNING | NOT_RUNNING

text \<open>\<^verbatim>\<open>flows_proto.ArtifactCollectorContext\<close>: the collection session.\<close>

record ArtifactCollectorContext =
  ctx_SessionId :: string
  CreateTime :: "64 word"
  State :: ArtifactCollectorContext_State
  Request :: ArtifactCollectorArgs
  ctx_ClientId :: string

text \<open>
  What \<^verbatim>\<open>SetSubject\<close> is given: the session (line 233) or the provenance record
  \<^verbatim>\<open>ApiFlowRequestDetails{Items: tasks}\<close> (line 263).
\<close>

datatype subject =
    CollectionContext ArtifactCollectorContext
  | ApiFlowRequestDetails "GrrMessage list"

subsection \<open>Collaborators and the trace of their calls\<close>

text \<open>
  One event per call to a collaborator, in the order of the calls, with the call's arguments
  and its outcome (\<open>None\<close> is a \<^verbatim>\<open>nil\<close> error).
\<close>

datatype event =
    Repository_Get string "Artifact option"
  | Repository_CheckAccess Artifact string "error option"
  | Repository_Compile Artifact "error option"
  | Repository_PopulateArtifactsVQLCollectorArgs "error option"
  | Artifacts_Obfuscate "error option"
  | Inventory_GetToolInfo string "error option"
  | Inventory_AddTool Tool "error option"
  | Datastore_GetDB "error option"
  | Datastore_SetSubject string subject "error option"
  | Datastore_QueueMessageForClient string GrrMessage "error option"

text \<open>
  The repository (package \<^verbatim>\<open>artifacts\<close>) is not part of this file: its operations are
  parameters. It is an in-memory value handed to the launcher, so its answers do not depend
  on the trace. \<open>Compile\<close>, \<open>PopulateArtifactsVQLCollectorArgs\<close> and \<open>Obfuscate\<close> change
  the program they are given in place: they return the error and the program afterwards.
  The context and the configuration that the Go calls pass along are part of the parameter.
\<close>

record Repository =
  Get :: "string \<Rightarrow> Artifact option"
  CheckAccess :: "Artifact \<Rightarrow> string \<Rightarrow> error option"
  Compile :: "Artifact \<Rightarrow> VQLCollectorArgs \<Rightarrow> error option \<times> VQLCollectorArgs"
  PopulateArtifactsVQLCollectorArgs :: "VQLCollectorArgs \<Rightarrow> error option \<times> VQLCollectorArgs"
  Obfuscate :: "VQLCollectorArgs \<Rightarrow> error option \<times> VQLCollectorArgs"

text \<open>
  The inventory (\<^verbatim>\<open>services.GetInventory()\<close>) and the datastore are process-wide
  services with state of their own. Their operations are parameters too; an answer may
  depend on every call made so far, so each operation reads the trace.
\<close>

record Inventory =
  GetToolInfo :: "event list \<Rightarrow> string \<Rightarrow> error + Tool"
  AddTool :: "event list \<Rightarrow> Tool \<Rightarrow> error option"

record Datastore =
  GetDB :: "event list \<Rightarrow> error option"
  SetSubject :: "event list \<Rightarrow> string \<Rightarrow> subject \<Rightarrow> error option"
  QueueMessageForClient :: "event list \<Rightarrow> string \<Rightarrow> GrrMessage \<Rightarrow> error option"

text \<open>
  Declarations of other packages that the file uses: \<^verbatim>\<open>constants.FLOW_PREFIX\<close>,
  \<^verbatim>\<open>constants.ProcessVQLResponses\<close>, and the two paths of
  \<^verbatim>\<open>paths.NewFlowPathManager(client_id, session_id)\<close>: \<^verbatim>\<open>.Path()\<close> and
  \<^verbatim>\<open>.Task().Path()\<close>.
\<close>

record Packages =
  FLOW_PREFIX :: string
  ProcessVQLResponses :: "64 word"
  FlowPath :: "string \<Rightarrow> string \<Rightarrow> string"
  FlowTaskPath :: "string \<Rightarrow> string \<Rightarrow> string"

text \<open>
  What one scheduling call reads from the clock and the random source:
  \<^verbatim>\<open>time.Now().Unix()\<close> (line 323), the eight bytes of \<^verbatim>\<open>rand.Read\<close> (line 321) as
  one big-endian value, and \<^verbatim>\<open>time.Now().UnixNano()\<close> (line 218).
\<close>

record Readings =
  time_Unix :: "64 word"
  rand_Read :: "64 word"
  time_UnixNano :: "64 word"

text \<open>The launcher's own state: the trace, and the package variable of line 310.\<close>

record world =
  trace :: "event list"
  NextFlowIdForTests :: string

subsection \<open>Declaring and resolving tools (lines 101--177)\<close>

text \<open>
  \<^verbatim>\<open>EnsureToolsDeclared\<close>: for each tool the artifact declares, ask the inventory; when
  the inventory returns an error, register the artifact's tool, and stop at the first
  registration that fails. The calls to the logger are left out.
\<close>

fun EnsureToolsDeclared_loop ::
  "Inventory \<Rightarrow> Tool list \<Rightarrow> event list \<Rightarrow> error option \<times> event list" where
  "EnsureToolsDeclared_loop inventory [] h = (None, h)"
| "EnsureToolsDeclared_loop inventory (tool # tools) h =
     (case GetToolInfo inventory h (Name tool) of
        Inr tool_info \<Rightarrow>
          EnsureToolsDeclared_loop inventory tools (h @ [Inventory_GetToolInfo (Name tool) None])
      | Inl err \<Rightarrow>
          (let h1 = h @ [Inventory_GetToolInfo (Name tool) (Some err)];
               err = AddTool inventory h1 tool;
               h2 = h1 @ [Inventory_AddTool tool err]
           in case err of
                Some e \<Rightarrow> (Some e, h2)
              | None \<Rightarrow> EnsureToolsDeclared_loop inventory tools h2))"

definition EnsureToolsDeclared ::
  "Inventory \<Rightarrow> Artifact \<Rightarrow> event list \<Rightarrow> error option \<times> event list" where
  "EnsureToolsDeclared inventory artifact h =
     EnsureToolsDeclared_loop inventory (artifact_Tools artifact) h"

text \<open>
  \<^verbatim>\<open>AddToolDependency\<close> appends to the program it is given, so the model returns the
  program as the function leaves it, on the error paths too.
  \<^verbatim>\<open>fmt.Sprintf("Tool_%v_HASH", s)\<close> of a string \<open>s\<close> is the concatenation.
\<close>

definition AddToolDependency ::
  "Inventory \<Rightarrow> Config \<Rightarrow> string \<Rightarrow> VQLCollectorArgs \<Rightarrow> event list
     \<Rightarrow> error option \<times> VQLCollectorArgs \<times> event list" where
  "AddToolDependency inventory config_obj tool vql_collector_args h =
     (case GetToolInfo inventory h tool of
        Inl err \<Rightarrow> (Some err, vql_collector_args, h @ [Inventory_GetToolInfo tool (Some err)])
      | Inr tool_info \<Rightarrow>
          (let h1 = h @ [Inventory_GetToolInfo tool None];
               args1 = vql_collector_args\<lparr>Env := Env vql_collector_args @
                 [\<lparr>Key = ''Tool_'' @ Name tool_info @ ''_HASH'', Value = Hash tool_info\<rparr>]\<rparr>;
               args2 = args1\<lparr>Env := Env args1 @
                 [\<lparr>Key = ''Tool_'' @ Name tool_info @ ''_FILENAME'', Value = Filename tool_info\<rparr>]\<rparr>
           in if length (ServerUrls config_obj) = 0 then (Some NoServerURLs, args2, h1)
              else
                (let url = ServerUrls config_obj ! 0 @ ''public/'' @ FilestorePath tool_info;
                     url = (if \<not> ServeLocally tool_info \<and> Url tool_info \<noteq> ''''
                            then Url tool_info else url)
                 in (None,
                     args2\<lparr>Env := Env args2 @
                       [\<lparr>Key = ''Tool_'' @ Name tool_info @ ''_URL'', Value = url\<rparr>]\<rparr>,
                     h1))))"

text \<open>
  \<^verbatim>\<open>getDependentTools\<close>: the loop of line 107 ranges over the program's tool list as
  it is when the loop starts, and stops at the first error.
\<close>

fun getDependentTools_loop ::
  "Inventory \<Rightarrow> Config \<Rightarrow> string list \<Rightarrow> VQLCollectorArgs \<Rightarrow> event list
     \<Rightarrow> error option \<times> VQLCollectorArgs \<times> event list" where
  "getDependentTools_loop inventory config_obj [] vql_collector_args h =
     (None, vql_collector_args, h)"
| "getDependentTools_loop inventory config_obj (tool # tools) vql_collector_args h =
     (case AddToolDependency inventory config_obj tool vql_collector_args h of
        (Some err, args', h') \<Rightarrow> (Some err, args', h')
      | (None, args', h') \<Rightarrow> getDependentTools_loop inventory config_obj tools args' h')"

definition getDependentTools ::
  "Inventory \<Rightarrow> Config \<Rightarrow> VQLCollectorArgs \<Rightarrow> event list
     \<Rightarrow> error option \<times> VQLCollectorArgs \<times> event list" where
  "getDependentTools inventory config_obj vql_collector_args h =
     getDependentTools_loop inventory config_obj (Tools vql_collector_args) vql_collector_args h"

subsection \<open>The compiler (lines 33--99)\<close>

text \<open>
  The loop of lines 50--78 over the artifact names of the request. The repository's
  \<^verbatim>\<open>Get\<close> returns a pointer and a second value that the launcher drops; \<open>None\<close> is
  the \<^verbatim>\<open>nil\<close> pointer.
\<close>

fun CompileCollectorArgs_loop ::
  "Inventory \<Rightarrow> string \<Rightarrow> Repository \<Rightarrow> ArtifactCollectorArgs \<Rightarrow> string list
     \<Rightarrow> VQLCollectorArgs \<Rightarrow> event list \<Rightarrow> error option \<times> VQLCollectorArgs \<times> event list" where
  "CompileCollectorArgs_loop inventory principal_name repository collector_request []
       vql_collector_args h = (None, vql_collector_args, h)"
| "CompileCollectorArgs_loop inventory principal_name repository collector_request (name # names)
       vql_collector_args h =
     (let custom = (if AllowCustomOverrides collector_request
                    then Get repository (''Custom.'' @ name) else None);
          h1 = (if AllowCustomOverrides collector_request
                then h @ [Repository_Get (''Custom.'' @ name) custom] else h);
          artifact = (case custom of None \<Rightarrow> Get repository name | Some a \<Rightarrow> Some a);
          h2 = (case custom of None \<Rightarrow> h1 @ [Repository_Get name artifact] | Some a \<Rightarrow> h1)
      in case artifact of
           None \<Rightarrow> (Some (UnknownArtifact name), vql_collector_args, h2)
         | Some artifact \<Rightarrow>
             (let err = CheckAccess repository artifact principal_name;
                  h3 = h2 @ [Repository_CheckAccess artifact principal_name err]
              in case err of
                   Some e \<Rightarrow> (Some e, vql_collector_args, h3)
                 | None \<Rightarrow>
                     (let (err, args') = Compile repository artifact vql_collector_args;
                          h4 = h3 @ [Repository_Compile artifact err]
                      in case err of
                           Some e \<Rightarrow> (Some e, args', h4)
                         | None \<Rightarrow>
                             (case EnsureToolsDeclared inventory artifact h4 of
                                (Some e, h5) \<Rightarrow> (Some e, args', h5)
                              | (None, h5) \<Rightarrow>
                                  CompileCollectorArgs_loop inventory principal_name repository
                                    collector_request names args' h5))))"

text \<open>
  The program of lines 42--46: the limits of the request, the row cap, and Go's zero values
  (\<^verbatim>\<open>nil\<close> slices) in the other fields.
\<close>

definition new_VQLCollectorArgs :: "ArtifactCollectorArgs \<Rightarrow> VQLCollectorArgs" where
  "new_VQLCollectorArgs collector_request =
     \<lparr>OpsPerSecond = req_OpsPerSecond collector_request,
      Timeout = req_Timeout collector_request,
      MaxRow = 1000, Env = [], Tools = [], Query = []\<rparr>"

text \<open>
  The three shapes in which \<^verbatim>\<open>CompileCollectorArgs\<close> returns: \<^verbatim>\<open>nil, err\<close>
  (\<open>Failed err None\<close>), and the last line's \<^verbatim>\<open>vql_collector_args, err\<close>, which is
  \<open>Compiled\<close> when the obfuscation's error is \<^verbatim>\<open>nil\<close> and \<open>Failed err (Some _)\<close>
  otherwise.
\<close>

datatype compile_result =
    Compiled VQLCollectorArgs
  | Failed error "VQLCollectorArgs option"

definition CompileCollectorArgs ::
  "Inventory \<Rightarrow> Config \<Rightarrow> string \<Rightarrow> Repository \<Rightarrow> ArtifactCollectorArgs \<Rightarrow> event list
     \<Rightarrow> compile_result \<times> event list" where
  "CompileCollectorArgs inventory config_obj principal_name repository collector_request h =
     (let vql_collector_args = new_VQLCollectorArgs collector_request
      in case CompileCollectorArgs_loop inventory principal_name repository collector_request
                (Artifacts collector_request) vql_collector_args h of
           (Some e, args1, h1) \<Rightarrow> (Failed e None, h1)
         | (None, args1, h1) \<Rightarrow>
             (let (err, args2) = PopulateArtifactsVQLCollectorArgs repository args1;
                  h2 = h1 @ [Repository_PopulateArtifactsVQLCollectorArgs err]
              in case err of
                   Some e \<Rightarrow> (Failed e None, h2)
                 | None \<Rightarrow>
                     (let args3 = AddArtifactCollectorArgs args2 collector_request
                      in case getDependentTools inventory config_obj args3 h2 of
                           (Some e, args4, h3) \<Rightarrow> (Failed e None, h3)
                         | (None, args4, h3) \<Rightarrow>
                             (let (err, args5) = Obfuscate repository args4;
                                  h4 = h3 @ [Artifacts_Obfuscate err]
                              in case err of
                                   Some e \<Rightarrow> (Failed e (Some args5), h4)
                                 | None \<Rightarrow> (Compiled args5, h4)))))"

subsection \<open>Session identifiers (lines 305--327)\<close>

definition SetFlowIdForTests :: "string \<Rightarrow> world \<Rightarrow> world" where
  "SetFlowIdForTests flow_id w = w\<lparr>NextFlowIdForTests := flow_id\<rparr>"

text \<open>
  The first 13 characters of \<^verbatim>\<open>base32.HexEncoding.EncodeToString(buf)\<close> for the eight
  bytes \<open>buf\<close>, read as one big-endian 64-bit value: twelve groups of five bits from the
  top, then the last four bits followed by a zero bit.
\<close>

definition HexEncoding_13 :: "64 word \<Rightarrow> string" where
  "HexEncoding_13 buf =
     map (\<lambda>i. ''0123456789ABCDEFGHIJKLMNOPQRSTUV'' !
                unat (if i < 12 then take_bit 5 (drop_bit (59 - 5 * i) buf)
                      else push_bit 1 (take_bit 4 buf)))
       [0..<13]"

text \<open>
  \<^verbatim>\<open>NewFlowId\<close> returns the identifier and the package variable afterwards.
  \<^verbatim>\<open>PutUint32(buf, uint32(time.Now().Unix()))\<close> overwrites the first four of the
  eight random bytes with the low 32 bits of the time.
\<close>

definition NewFlowId :: "Packages \<Rightarrow> Readings \<Rightarrow> string \<Rightarrow> string \<Rightarrow> string \<times> string" where
  "NewFlowId pkg rd client_id next_flow_id_for_tests =
     (if next_flow_id_for_tests \<noteq> '''' then (next_flow_id_for_tests, '''')
      else
        (let buf = push_bit 32 (take_bit 32 (time_Unix rd)) + take_bit 32 (rand_Read rd)
         in (FLOW_PREFIX pkg @ HexEncoding_13 buf, next_flow_id_for_tests)))"

subsection \<open>The scheduler (lines 179--269)\<close>

text \<open>
  The loop of lines 240--258: one task per compiled program, queued for the client; the
  loop stops at the first queueing error. \<open>tasks\<close> collects the tasks queued so far.
\<close>

fun QueueMessageForClient_loop ::
  "Datastore \<Rightarrow> Packages \<Rightarrow> ArtifactCollectorArgs \<Rightarrow> string \<Rightarrow> string
     \<Rightarrow> VQLCollectorArgs list \<Rightarrow> GrrMessage list \<Rightarrow> event list
     \<Rightarrow> error option \<times> GrrMessage list \<times> event list" where
  "QueueMessageForClient_loop db pkg collector_request client_id session_id [] tasks h =
     (None, tasks, h)"
| "QueueMessageForClient_loop db pkg collector_request client_id session_id (arg # args) tasks h =
     (let task = \<lparr>SessionId = session_id, RequestId = ProcessVQLResponses pkg,
                  VQLClientAction = arg, task_Urgent = False\<rparr>;
          task = (if Urgent collector_request then task\<lparr>task_Urgent := True\<rparr> else task);
          err = QueueMessageForClient db h client_id task;
          h' = h @ [Datastore_QueueMessageForClient client_id task err]
      in case err of
           Some e \<Rightarrow> (Some e, tasks, h')
         | None \<Rightarrow>
             QueueMessageForClient_loop db pkg collector_request client_id session_id args
               (tasks @ [task]) h')"

text \<open>
  The session that lines 216--222 build. \<^verbatim>\<open>uint64(time.Now().UnixNano() / 1000)\<close> is
  Go's signed division, which truncates, of the signed reading, converted to 64 bits.
\<close>

definition collection_context ::
  "ArtifactCollectorArgs \<Rightarrow> Readings \<Rightarrow> string \<Rightarrow> ArtifactCollectorContext" where
  "collection_context collector_request rd session_id =
     \<lparr>ctx_SessionId = session_id,
      CreateTime = word_of_int (sint (time_UnixNano rd) sdiv 1000),
      State = RUNNING,
      Request = collector_request,
      ctx_ClientId = ClientId collector_request\<rparr>"

text \<open>
  \<^verbatim>\<open>ScheduleArtifactCollectionFromCollectorArgs\<close> returns the pair of the Go function
  (the session identifier, \<^verbatim>\<open>""\<close> with an error) and the world afterwards.
\<close>

definition ScheduleArtifactCollectionFromCollectorArgs ::
  "Datastore \<Rightarrow> Packages \<Rightarrow> Readings \<Rightarrow> ArtifactCollectorArgs \<Rightarrow> VQLCollectorArgs list
     \<Rightarrow> world \<Rightarrow> (string \<times> error option) \<times> world" where
  "ScheduleArtifactCollectionFromCollectorArgs db pkg rd collector_request vql_collector_args w =
     (let client_id = ClientId collector_request
      in if client_id = '''' then (('''', Some ClientIdNotProvided), w)
         else
           (let (session_id, next_id) = NewFlowId pkg rd client_id (NextFlowIdForTests w);
                ctx = collection_context collector_request rd session_id;
                w1 = w\<lparr>NextFlowIdForTests := next_id\<rparr>;
                err = GetDB db (trace w1);
                w2 = w1\<lparr>trace := trace w1 @ [Datastore_GetDB err]\<rparr>
            in case err of
                 Some e \<Rightarrow> (('''', Some e), w2)
               | None \<Rightarrow>
                   (let path = FlowPath pkg client_id session_id;
                        err = SetSubject db (trace w2) path (CollectionContext ctx);
                        w3 = w2\<lparr>trace := trace w2 @
                               [Datastore_SetSubject path (CollectionContext ctx) err]\<rparr>
                    in case err of
                         Some e \<Rightarrow> (('''', Some e), w3)
                       | None \<Rightarrow>
                           (case QueueMessageForClient_loop db pkg collector_request client_id
                                   session_id vql_collector_args [] (trace w3) of
                              (Some e, tasks, h4) \<Rightarrow> (('''', Some e), w3\<lparr>trace := h4\<rparr>)
                            | (None, tasks, h4) \<Rightarrow>
                                (let task_path = FlowTaskPath pkg client_id session_id;
                                     err = SetSubject db h4 task_path (ApiFlowRequestDetails tasks);
                                     w5 = w3\<lparr>trace := h4 @
                                       [Datastore_SetSubject task_path
                                          (ApiFlowRequestDetails tasks) err]\<rparr>
                                 in case err of
                                      Some e \<Rightarrow> (('''', Some e), w5)
                                    | None \<Rightarrow> ((session_id, None), w5))))))"

text \<open>
  \<^verbatim>\<open>ScheduleArtifactCollection\<close>: the request's compiled programs when the slice is not
  \<^verbatim>\<open>nil\<close>; otherwise the compiler's program, appended to the \<^verbatim>\<open>nil\<close> slice.
\<close>

definition ScheduleArtifactCollection ::
  "Inventory \<Rightarrow> Datastore \<Rightarrow> Packages \<Rightarrow> Readings \<Rightarrow> Config \<Rightarrow> string \<Rightarrow> Repository
     \<Rightarrow> ArtifactCollectorArgs \<Rightarrow> world \<Rightarrow> (string \<times> error option) \<times> world" where
  "ScheduleArtifactCollection inventory db pkg rd config_obj principal_name repository
       collector_request w =
     (case CompiledCollectorArgs collector_request of
        Some args \<Rightarrow>
          ScheduleArtifactCollectionFromCollectorArgs db pkg rd collector_request args w
      | None \<Rightarrow>
          (case CompileCollectorArgs inventory config_obj principal_name repository
                  collector_request (trace w) of
             (Failed err args, h) \<Rightarrow> (('''', Some err), w\<lparr>trace := h\<rparr>)
           | (Compiled compiled, h) \<Rightarrow>
               ScheduleArtifactCollectionFromCollectorArgs db pkg rd collector_request
                 ([] @ [compiled]) (w\<lparr>trace := h\<rparr>)))"

section \<open>Reading the trace\<close>

text \<open>
  The rule of custom-override precedence in the words of the spec, to compare the loop
  with: the artifact for \<open>name\<close> is the \<^verbatim>\<open>Custom.\<close> variant when overrides are
  allowed and the repository has it, otherwise whatever the repository has under the plain
  name.
\<close>

definition resolved_artifact :: "Repository \<Rightarrow> bool \<Rightarrow> string \<Rightarrow> Artifact option" where
  "resolved_artifact repository allow_custom_overrides name =
     (if allow_custom_overrides \<and> Get repository (''Custom.'' @ name) \<noteq> None
      then Get repository (''Custom.'' @ name)
      else Get repository name)"

text \<open>
  The events of the lookups of lines 52--58 for one name: the \<^verbatim>\<open>Custom.\<close> variant
  when overrides are allowed, then the plain name unless the variant was found.
\<close>

definition lookup_events :: "Repository \<Rightarrow> bool \<Rightarrow> string \<Rightarrow> event list" where
  "lookup_events repository allow_custom_overrides name =
     (if allow_custom_overrides
      then [Repository_Get (''Custom.'' @ name) (Get repository (''Custom.'' @ name))] else [])
     @ (if allow_custom_overrides \<and> Get repository (''Custom.'' @ name) \<noteq> None then []
        else [Repository_Get name (Get repository name)])"

text \<open>The artifacts that the repository compiled without error, in the order of the calls.\<close>

fun compiled_artifacts :: "event list \<Rightarrow> Artifact list" where
  "compiled_artifacts [] = []"
| "compiled_artifacts (Repository_Compile artifact None # es) = artifact # compiled_artifacts es"
| "compiled_artifacts (e # es) = compiled_artifacts es"

text \<open>The tools that the inventory registered without error, in the order of the calls.\<close>

fun registered_tools :: "event list \<Rightarrow> Tool list" where
  "registered_tools [] = []"
| "registered_tools (Inventory_AddTool tool None # es) = tool # registered_tools es"
| "registered_tools (e # es) = registered_tools es"

text \<open>The calls that ask the inventory to register a tool, whatever their outcome.\<close>

fun is_AddTool :: "event \<Rightarrow> bool" where
  "is_AddTool (Inventory_AddTool tool err) = True"
| "is_AddTool e = False"

text \<open>The three entries of one tool descriptor: what C6 proves of \<^verbatim>\<open>AddToolDependency\<close>.\<close>

definition tool_entries :: "Config \<Rightarrow> Tool \<Rightarrow> VQLEnv list" where
  "tool_entries config_obj tool_info =
     [\<lparr>Key = ''Tool_'' @ Name tool_info @ ''_HASH'', Value = Hash tool_info\<rparr>,
      \<lparr>Key = ''Tool_'' @ Name tool_info @ ''_FILENAME'', Value = Filename tool_info\<rparr>,
      \<lparr>Key = ''Tool_'' @ Name tool_info @ ''_URL'',
       Value = (if \<not> ServeLocally tool_info \<and> Url tool_info \<noteq> '''' then Url tool_info
                else hd (ServerUrls config_obj) @ ''public/'' @ FilestorePath tool_info)\<rparr>]"

text \<open>
  The descriptors that the inventory returns when it is asked for the tools of a list one
  after the other, from the trace \<open>h\<close> on, up to the first tool it does not know.
\<close>

fun tool_infos :: "Inventory \<Rightarrow> string list \<Rightarrow> event list \<Rightarrow> Tool list" where
  "tool_infos inventory [] h = []"
| "tool_infos inventory (tool # tools) h =
     (case GetToolInfo inventory h tool of
        Inl err \<Rightarrow> []
      | Inr tool_info \<Rightarrow>
          tool_info # tool_infos inventory tools (h @ [Inventory_GetToolInfo tool None]))"

text \<open>Calls to the datastore, calls that queue a task, and the tasks queued without error.\<close>

fun is_Datastore :: "event \<Rightarrow> bool" where
  "is_Datastore (Datastore_GetDB err) = True"
| "is_Datastore (Datastore_SetSubject path s err) = True"
| "is_Datastore (Datastore_QueueMessageForClient client_id task err) = True"
| "is_Datastore e = False"

fun is_QueueMessageForClient :: "event \<Rightarrow> bool" where
  "is_QueueMessageForClient (Datastore_QueueMessageForClient client_id task err) = True"
| "is_QueueMessageForClient e = False"

fun queued_tasks :: "event list \<Rightarrow> GrrMessage list" where
  "queued_tasks [] = []"
| "queued_tasks (Datastore_QueueMessageForClient client_id task None # es) =
     task # queued_tasks es"
| "queued_tasks (e # es) = queued_tasks es"

text \<open>A write of a session that the datastore refused.\<close>

fun is_failed_session_write :: "event \<Rightarrow> bool" where
  "is_failed_session_write (Datastore_SetSubject path (CollectionContext c) (Some err)) = True"
| "is_failed_session_write e = False"

text \<open>
  \<open>persisted_before_queued pkg seen es\<close>: along the events \<open>es\<close>, every call that queues a
  task for a client, whatever its outcome, comes after a successful write of a session with
  the task's session identifier and that client, at the session's path. \<open>seen\<close> holds the
  (client, session) pairs written so far.
\<close>

fun persisted_before_queued ::
  "Packages \<Rightarrow> (string \<times> string) list \<Rightarrow> event list \<Rightarrow> bool" where
  "persisted_before_queued pkg seen [] = True"
| "persisted_before_queued pkg seen (Datastore_SetSubject path (CollectionContext c) None # es) =
     (if path = FlowPath pkg (ctx_ClientId c) (ctx_SessionId c)
      then persisted_before_queued pkg ((ctx_ClientId c, ctx_SessionId c) # seen) es
      else persisted_before_queued pkg seen es)"
| "persisted_before_queued pkg seen (Datastore_QueueMessageForClient client_id task err # es) =
     ((client_id, SessionId task) \<in> set seen \<and> persisted_before_queued pkg seen es)"
| "persisted_before_queued pkg seen (e # es) = persisted_before_queued pkg seen es"

text \<open>The events that a call appended to the trace \<open>before\<close>, given the trace \<open>after\<close> it.\<close>

definition new_events :: "event list \<Rightarrow> event list \<Rightarrow> event list" where
  "new_events before after = drop (length before) after"





section \<open>Example collaborators\<close>

text \<open>
  Modelled from the spec: the repository of package \<^verbatim>\<open>artifacts\<close>
  (\<^verbatim>\<open>Repository.Get\<close>, \<^verbatim>\<open>CheckAccess\<close>, \<^verbatim>\<open>Compile\<close>,
  \<^verbatim>\<open>PopulateArtifactsVQLCollectorArgs\<close> and \<^verbatim>\<open>artifacts.Obfuscate\<close>), which is
  not in \<^verbatim>\<open>launcher.go\<close>. The spec gives \<^verbatim>\<open>Get(name)\<close> as the artifact or its
  absence, and says of \<^verbatim>\<open>Compile\<close> that it merges the artifact's query plan into the
  program with append semantics and that the program lists the tool names it references.
  The example finds an artifact by its name, grants every access, appends the artifact's
  sources to the query plan, and adds the name of each tool the artifact declares to the
  tool list unless the list holds it already; it populates nothing more and obfuscates
  nothing. It is used at concrete inputs only: every theorem about the launcher holds for
  any repository.
\<close>

definition example_repository :: "Artifact list \<Rightarrow> Repository" where
  "example_repository artifacts =
     \<lparr>Get = (\<lambda>name. find (\<lambda>a. artifact_Name a = name) artifacts),
      CheckAccess = (\<lambda>artifact p. None),
      Compile = (\<lambda>artifact args.
        (None, args\<lparr>Tools := fold (\<lambda>n ts. if n \<in> set ts then ts else ts @ [n])
                                 (map Name (artifact_Tools artifact)) (Tools args),
                      Query := Query args @ Sources artifact\<rparr>)),
      PopulateArtifactsVQLCollectorArgs = (\<lambda>args. (None, args)),
      Obfuscate = (\<lambda>args. (None, args))\<rparr>"

text \<open>
  Modelled from the spec: the inventory service (\<^verbatim>\<open>services.GetInventory()\<close>), which is
  not in \<^verbatim>\<open>launcher.go\<close>. \<^verbatim>\<open>GetToolInfo\<close> gives the descriptor or an error for an
  unknown tool; \<^verbatim>\<open>AddTool\<close> registers a descriptor and the first registration of a name
  wins. The example knows the tools it starts with and those registered along the trace.
\<close>

definition example_inventory :: "Tool list \<Rightarrow> Inventory" where
  "example_inventory known =
     \<lparr>GetToolInfo = (\<lambda>h name.
        case find (\<lambda>t. Name t = name) (known @ registered_tools h) of
          None \<Rightarrow> Inl (Upstream ''tool not found'')
        | Some t \<Rightarrow> Inr t),
      AddTool = (\<lambda>h tool. None)\<rparr>"

text \<open>
  Modelled from the spec: the datastore (\<^verbatim>\<open>datastore.GetDB\<close>, \<^verbatim>\<open>SetSubject\<close>,
  \<^verbatim>\<open>QueueMessageForClient\<close>), which is not in \<^verbatim>\<open>launcher.go\<close>; each call returns an
  error or none. The example accepts every call, except that it refuses every write when it
  is not writable.
\<close>

definition example_datastore :: "bool \<Rightarrow> Datastore" where
  "example_datastore writable =
     \<lparr>GetDB = (\<lambda>h. None),
      SetSubject = (\<lambda>h path s. if writable then None else Some (Upstream ''read-only'')),
      QueueMessageForClient = (\<lambda>h client_id task. None)\<rparr>"

text \<open>
  Modelled from the spec: the constants and the paths of the packages \<^verbatim>\<open>constants\<close> and
  \<^verbatim>\<open>paths\<close>, which are not in \<^verbatim>\<open>launcher.go\<close>: a fixed prefix, a fixed routing tag,
  and two paths that are functions of the client and the session identifiers.
\<close>

definition example_packages :: Packages where
  "example_packages =
     \<lparr>FLOW_PREFIX = ''F.'',
      ProcessVQLResponses = 1,
      FlowPath = (\<lambda>client_id session_id. ''/clients/'' @ client_id @ ''/collections/'' @ session_id),
      FlowTaskPath = (\<lambda>client_id session_id.
        ''/clients/'' @ client_id @ ''/collections/'' @ session_id @ ''/task'')\<rparr>"

text \<open>Concrete readings, world, configuration, tools, artifacts, programs and requests.\<close>

definition example_readings :: Readings where
  "example_readings = \<lparr>time_Unix = 1600000000, rand_Read = 0, time_UnixNano = 1600000000000000000\<rparr>"

definition example_world :: world where
  "example_world = \<lparr>trace = [], NextFlowIdForTests = ''F.1234''\<rparr>"

definition example_config :: Config where
  "example_config = \<lparr>ServerUrls = [''https://server/'']\<rparr>"

definition tool_t :: Tool where
  "tool_t = \<lparr>Name = ''t'', Url = ''https://elsewhere/t'', ServeLocally = False,
             Filename = ''t.exe'', FilestorePath = ''tools/t.exe'', Hash = ''abc''\<rparr>"

definition tool_u :: Tool where
  "tool_u = \<lparr>Name = ''u'', Url = '''', ServeLocally = True,
             Filename = ''u.exe'', FilestorePath = ''tools/u.exe'', Hash = ''def''\<rparr>"

definition artifact_A :: Artifact where
  "artifact_A = \<lparr>artifact_Name = ''A'', artifact_Tools = [tool_t], Sources = [''SELECT a'']\<rparr>"

definition artifact_B :: Artifact where
  "artifact_B =
     \<lparr>artifact_Name = ''B'', artifact_Tools = [tool_t, tool_u], Sources = [''SELECT b'']\<rparr>"

definition artifact_Custom_A :: Artifact where
  "artifact_Custom_A =
     \<lparr>artifact_Name = ''Custom.A'', artifact_Tools = [], Sources = [''SELECT custom'']\<rparr>"

definition example_program :: VQLCollectorArgs where
  "example_program =
     \<lparr>OpsPerSecond = 0, Timeout = 600, MaxRow = 1000, Env = [], Tools = [],
      Query = [''SELECT 1'']\<rparr>"

definition example_request :: "string \<Rightarrow> string list \<Rightarrow> ArtifactCollectorArgs" where
  "example_request client_id names =
     \<lparr>ClientId = client_id, Artifacts = names, Parameters = None,
      AllowCustomOverrides = True, Urgent = True, req_OpsPerSecond = 0, req_Timeout = 600,
      CompiledCollectorArgs = None\<rparr>"



section \<open>Properties\<close>

lemmas example_defs =
  example_repository_def example_inventory_def example_datastore_def example_packages_def
  example_readings_def example_world_def example_config_def tool_t_def artifact_A_def
  artifact_B_def artifact_Custom_A_def example_program_def example_request_def tool_u_def

text \<open>The equations that unfold the model at a concrete input.\<close>

lemmas eval_defs =
  CompileCollectorArgs_def CompileCollectorArgs_loop.simps(2) EnsureToolsDeclared_def
  getDependentTools_def AddToolDependency_def AddArtifactCollectorArgs_def
  new_VQLCollectorArgs_def resolved_artifact_def lookup_events_def tool_entries_def Let_def

lemmas sched_defs =
  ScheduleArtifactCollectionFromCollectorArgs_def ScheduleArtifactCollection_def NewFlowId_def
  collection_context_def new_events_def QueueMessageForClient_loop.simps(2) Let_def

subsection \<open>The override merge\<close>

lemma addOrReplaceParameter_loop_keys:
  "addOrReplaceParameter_loop param env = Some env' \<Longrightarrow> map Key env' = map Key env"
  by (induction env arbitrary: env') (auto split: if_splits)

lemma addOrReplaceParameter_loop_again:
  "addOrReplaceParameter_loop param env = Some env' \<Longrightarrow>
   addOrReplaceParameter_loop param env' = Some env'"
  by (induction env arbitrary: env') (auto split: if_splits)

lemma addOrReplaceParameter_loop_None:
  "addOrReplaceParameter_loop param env = None \<longleftrightarrow> Key param \<notin> Key ` set env"
  by (induction env) auto

lemma addOrReplaceParameter_loop_found:
  "Key param \<notin> Key ` set pre \<Longrightarrow> Key item = Key param \<Longrightarrow>
   addOrReplaceParameter_loop param (pre @ item # post)
     = Some (pre @ item\<lparr>Value := Value param\<rparr> # post)"
  by (induction pre) auto

lemma caller_env_keys:
  "map Key (caller_env (addOrReplaceParameter param env)) = map Key env"
  by (auto simp: addOrReplaceParameter_def addOrReplaceParameter_loop_keys split: option.splits)

lemma AddArtifactCollectorArgs_loop_keys:
  "map Key (Env (AddArtifactCollectorArgs_loop items args)) = map Key (Env args)"
  by (induction items arbitrary: args) (auto simp: caller_env_keys)

text \<open>
  C8. Applying an override to the environment that the same override has already been
  applied to changes nothing: the merge is idempotent.
\<close>

theorem addOrReplaceParameter_idempotent:
  "caller_env (addOrReplaceParameter param (caller_env (addOrReplaceParameter param env)))
     = caller_env (addOrReplaceParameter param env)"
  by (auto simp: addOrReplaceParameter_def addOrReplaceParameter_loop_again split: option.splits)

subsection \<open>Resolving one tool\<close>

text \<open>
  C6. When the inventory knows the tool and a server URL is configured,
  \<^verbatim>\<open>AddToolDependency\<close> succeeds and appends three entries; the value of the URL entry
  is the descriptor's own URL when the descriptor is not served locally and that URL is not
  empty, and otherwise the first server URL, then \<^verbatim>\<open>public/\<close>, then the filestore path.
\<close>

theorem AddToolDependency_url:
  assumes "GetToolInfo inventory h tool = Inr tool_info"
      and "ServerUrls config_obj \<noteq> []"
  shows "fst (AddToolDependency inventory config_obj tool vql_collector_args h) = None
    \<and> Env (fst (snd (AddToolDependency inventory config_obj tool vql_collector_args h)))
      = Env vql_collector_args @
        [\<lparr>Key = ''Tool_'' @ Name tool_info @ ''_HASH'', Value = Hash tool_info\<rparr>,
         \<lparr>Key = ''Tool_'' @ Name tool_info @ ''_FILENAME'', Value = Filename tool_info\<rparr>,
         \<lparr>Key = ''Tool_'' @ Name tool_info @ ''_URL'',
          Value = (if \<not> ServeLocally tool_info \<and> Url tool_info \<noteq> '''' then Url tool_info
                   else hd (ServerUrls config_obj) @ ''public/'' @ FilestorePath tool_info)\<rparr>]"
  using assms by (simp add: AddToolDependency_def Let_def hd_conv_nth)

theorem AddToolDependency_url_witness:
  "Value (last (Env (fst (snd (AddToolDependency (example_inventory [tool_t]) example_config
      ''t'' example_program []))))) = ''https://elsewhere/t''
   \<and> Value (last (Env (fst (snd (AddToolDependency
      (example_inventory [tool_t\<lparr>ServeLocally := True\<rparr>]) example_config ''t''
      example_program []))))) = ''https://server/public/tools/t.exe''"
  using AddToolDependency_url [of "example_inventory [tool_t]" "[]" "''t''" tool_t
      example_config example_program]
    AddToolDependency_url [of "example_inventory [tool_t\<lparr>ServeLocally := True\<rparr>]" "[]"
      "''t''" "tool_t\<lparr>ServeLocally := True\<rparr>" example_config example_program]
  by (simp add: example_defs)

text \<open>
  C10. When the inventory knows the tool and no server URL is configured,
  \<^verbatim>\<open>AddToolDependency\<close> returns the error of line 161, and the program it leaves behind
  has the tool's HASH and FILENAME entries appended: it is not the program it was given.
\<close>

theorem AddToolDependency_no_server_urls:
  assumes "GetToolInfo inventory h tool = Inr tool_info"
      and "ServerUrls config_obj = []"
  shows "fst (AddToolDependency inventory config_obj tool vql_collector_args h)
      = Some NoServerURLs
    \<and> Env (fst (snd (AddToolDependency inventory config_obj tool vql_collector_args h)))
      = Env vql_collector_args @
        [\<lparr>Key = ''Tool_'' @ Name tool_info @ ''_HASH'', Value = Hash tool_info\<rparr>,
         \<lparr>Key = ''Tool_'' @ Name tool_info @ ''_FILENAME'', Value = Filename tool_info\<rparr>]
    \<and> fst (snd (AddToolDependency inventory config_obj tool vql_collector_args h))
      \<noteq> vql_collector_args"
proof -
  let ?r = "AddToolDependency inventory config_obj tool vql_collector_args h"
  have e: "Env (fst (snd ?r)) = Env vql_collector_args @
        [\<lparr>Key = ''Tool_'' @ Name tool_info @ ''_HASH'', Value = Hash tool_info\<rparr>,
         \<lparr>Key = ''Tool_'' @ Name tool_info @ ''_FILENAME'', Value = Filename tool_info\<rparr>]"
    using assms by (simp add: AddToolDependency_def Let_def)
  have "fst ?r = Some NoServerURLs"
    using assms by (simp add: AddToolDependency_def Let_def)
  moreover have "fst (snd ?r) \<noteq> vql_collector_args"
  proof
    assume "fst (snd ?r) = vql_collector_args"
    with e show False by simp
  qed
  ultimately show ?thesis using e by simp
qed

theorem AddToolDependency_no_server_urls_witness:
  "fst (AddToolDependency (example_inventory [tool_t]) \<lparr>ServerUrls = []\<rparr> ''t''
      example_program []) = Some NoServerURLs
   \<and> map Key (Env (fst (snd (AddToolDependency (example_inventory [tool_t])
        \<lparr>ServerUrls = []\<rparr> ''t'' example_program []))))
      = [''Tool_t_HASH'', ''Tool_t_FILENAME'']"
  using AddToolDependency_no_server_urls [of "example_inventory [tool_t]" "[]" "''t''" tool_t
      "\<lparr>ServerUrls = []\<rparr>" example_program]
  by (simp add: example_defs)

subsection \<open>The compiler's loop over the artifact names\<close>

text \<open>
  One round of the loop, read through \<open>resolved_artifact\<close>: the round for a name that
  resolves to nothing, and the round for a name that resolves to \<open>a\<close>.
\<close>

lemma CompileCollectorArgs_loop_unknown:
  assumes "resolved_artifact repository (AllowCustomOverrides collector_request) name = None"
  shows "CompileCollectorArgs_loop inventory principal_name repository collector_request
     (name # names) args h =
     (Some (UnknownArtifact name), args,
      h @ lookup_events repository (AllowCustomOverrides collector_request) name)"
proof (cases "AllowCustomOverrides collector_request")
  case True
  with assms have "Get repository (''Custom.'' @ name) = None" "Get repository name = None"
    by (auto simp: resolved_artifact_def split: if_splits)
  with True show ?thesis by (simp add: lookup_events_def)
next
  case False
  with assms have "Get repository name = None"
    by (auto simp: resolved_artifact_def split: if_splits)
  with False show ?thesis by (simp add: lookup_events_def)
qed

lemma CompileCollectorArgs_loop_known:
  assumes "resolved_artifact repository (AllowCustomOverrides collector_request) name = Some a"
  shows "CompileCollectorArgs_loop inventory principal_name repository collector_request
     (name # names) args h =
     (let h2 = h @ lookup_events repository (AllowCustomOverrides collector_request) name;
          err = CheckAccess repository a principal_name;
          h3 = h2 @ [Repository_CheckAccess a principal_name err]
      in case err of
           Some e \<Rightarrow> (Some e, args, h3)
         | None \<Rightarrow>
             (let (err, args') = Compile repository a args;
                  h4 = h3 @ [Repository_Compile a err]
              in case err of
                   Some e \<Rightarrow> (Some e, args', h4)
                 | None \<Rightarrow>
                     (case EnsureToolsDeclared inventory a h4 of
                        (Some e, h5) \<Rightarrow> (Some e, args', h5)
                      | (None, h5) \<Rightarrow>
                          CompileCollectorArgs_loop inventory principal_name repository
                            collector_request names args' h5)))"
proof (cases "AllowCustomOverrides collector_request")
  case True
  show ?thesis
  proof (cases "Get repository (''Custom.'' @ name)")
    case None
    with True assms have "Get repository name = Some a"
      by (simp add: resolved_artifact_def)
    with True None show ?thesis by (simp add: lookup_events_def)
  next
    case (Some c)
    with True assms have "c = a" by (simp add: resolved_artifact_def)
    with True Some show ?thesis by (simp add: lookup_events_def)
  qed
next
  case False
  with assms have "Get repository name = Some a"
    by (simp add: resolved_artifact_def)
  with False show ?thesis by (simp add: lookup_events_def)
qed

declare CompileCollectorArgs_loop.simps(2) [simp del]


lemma compiled_artifacts_lookup_events [simp]:
  "compiled_artifacts (lookup_events repository allow name) = []"
  by (simp add: lookup_events_def)

lemma EnsureToolsDeclared_loop_trace:
  "EnsureToolsDeclared_loop inventory tools h = (r, h') \<Longrightarrow>
   \<exists>es. h' = h @ es \<and> compiled_artifacts es = []"
proof (induction tools arbitrary: h)
  case Nil then show ?case by simp
next
  case (Cons tool tools)
  show ?case
  proof (cases "GetToolInfo inventory h (Name tool)")
    case (Inr ti)
    with Cons.prems have "EnsureToolsDeclared_loop inventory tools
        (h @ [Inventory_GetToolInfo (Name tool) None]) = (r, h')" by simp
    from Cons.IH [OF this] obtain es where
      "h' = (h @ [Inventory_GetToolInfo (Name tool) None]) @ es" "compiled_artifacts es = []"
      by blast
    then show ?thesis by (intro exI [of _ "Inventory_GetToolInfo (Name tool) None # es"]) simp
  next
    case (Inl err)
    show ?thesis
    proof (cases "AddTool inventory (h @ [Inventory_GetToolInfo (Name tool) (Some err)]) tool")
      case None
      with Inl Cons.prems have "EnsureToolsDeclared_loop inventory tools
        (h @ [Inventory_GetToolInfo (Name tool) (Some err), Inventory_AddTool tool None]) = (r, h')"
        by (simp add: Let_def)
      from Cons.IH [OF this] obtain es where
        "h' = (h @ [Inventory_GetToolInfo (Name tool) (Some err), Inventory_AddTool tool None]) @ es"
        "compiled_artifacts es = []"
        by blast
      then show ?thesis
        by (intro exI [of _ "Inventory_GetToolInfo (Name tool) (Some err) # Inventory_AddTool tool None # es"]) simp
    next
      case (Some e)
      with Inl Cons.prems have "h' = h @ [Inventory_GetToolInfo (Name tool) (Some err), Inventory_AddTool tool (Some e)]"
        by (auto simp add: Let_def)
      then show ?thesis by simp
    qed
  qed
qed


lemma is_AddTool_lookup_events [simp]:
  "filter is_AddTool (lookup_events repository allow name) = []"
  by (simp add: lookup_events_def)














subsection \<open>Resolving the tools of a program\<close>

lemma AddToolDependency_success:
  assumes "AddToolDependency inventory config_obj tool args h = (None, args', h')"
  shows "\<exists>tool_info. GetToolInfo inventory h tool = Inr tool_info
     \<and> args' = args\<lparr>Env := Env args @ tool_entries config_obj tool_info\<rparr>
     \<and> h' = h @ [Inventory_GetToolInfo tool None]"
proof (cases "GetToolInfo inventory h tool")
  case (Inl err)
  with assms show ?thesis by (simp add: AddToolDependency_def)
next
  case (Inr tool_info)
  with assms show ?thesis
    by (cases "ServerUrls config_obj")
       (auto simp: AddToolDependency_def Let_def tool_entries_def)
qed

lemma getDependentTools_loop_success:
  assumes "getDependentTools_loop inventory config_obj tools args h = (None, args', h')"
  shows "length (tool_infos inventory tools h) = length tools
     \<and> args' = args\<lparr>Env := Env args
           @ concat (map (tool_entries config_obj) (tool_infos inventory tools h))\<rparr>"
  using assms
proof (induction tools arbitrary: args h)
  case Nil
  then show ?case by simp
next
  case (Cons tool tools)
  obtain e args1 h1 where r: "AddToolDependency inventory config_obj tool args h = (e, args1, h1)"
    by (cases "AddToolDependency inventory config_obj tool args h")
  with Cons.prems have e: "e = None" by (cases e) auto
  from AddToolDependency_success [OF r [unfolded e]] obtain tool_info where
    ti: "GetToolInfo inventory h tool = Inr tool_info"
    and args1: "args1 = args\<lparr>Env := Env args @ tool_entries config_obj tool_info\<rparr>"
    and h1: "h1 = h @ [Inventory_GetToolInfo tool None]"
    by blast
  from Cons.prems r e have "getDependentTools_loop inventory config_obj tools args1 h1 = (None, args', h')"
    by simp
  from Cons.IH [OF this] show ?case
    using ti args1 h1 by simp
qed












subsection \<open>The events of a scheduling call\<close>

lemma QueueMessageForClient_loop_Cons:
  "QueueMessageForClient_loop db pkg collector_request client_id session_id (arg # args) tasks h =
     (let task = \<lparr>SessionId = session_id, RequestId = ProcessVQLResponses pkg,
                  VQLClientAction = arg, task_Urgent = Urgent collector_request\<rparr>;
          err = QueueMessageForClient db h client_id task;
          h' = h @ [Datastore_QueueMessageForClient client_id task err]
      in case err of
           Some e \<Rightarrow> (Some e, tasks, h')
         | None \<Rightarrow>
             QueueMessageForClient_loop db pkg collector_request client_id session_id args
               (tasks @ [task]) h')"
  by (cases "Urgent collector_request") (simp_all add: Let_def split: option.splits)

declare QueueMessageForClient_loop.simps(2) [simp del]

lemma QueueMessageForClient_loop_events:
  assumes "QueueMessageForClient_loop db pkg collector_request client_id session_id args tasks h
             = (r, tasks', h')"
  shows "\<exists>es. h' = h @ es
     \<and> (\<forall>e\<in>set es. \<exists>task err.
           e = Datastore_QueueMessageForClient client_id task err \<and> SessionId task = session_id)
     \<and> tasks' = tasks @ queued_tasks es
     \<and> map VQLClientAction (queued_tasks es) = take (length (queued_tasks es)) args
     \<and> (r = None \<longrightarrow> length (queued_tasks es) = length args)"
  using assms
proof (induction args arbitrary: tasks h)
  case Nil
  then show ?case by simp
next
  case (Cons arg args)
  let ?task = "\<lparr>SessionId = session_id, RequestId = ProcessVQLResponses pkg,
                  VQLClientAction = arg, task_Urgent = Urgent collector_request\<rparr>"
  show ?case
  proof (cases "QueueMessageForClient db h client_id ?task")
    case (Some e)
    with Cons.prems have "h' = h @ [Datastore_QueueMessageForClient client_id ?task (Some e)]"
      "tasks' = tasks" "r = Some e"
      by (auto simp add: QueueMessageForClient_loop_Cons Let_def)
    then show ?thesis
      by (intro exI [of _ "[Datastore_QueueMessageForClient client_id ?task (Some e)]"]) simp
  next
    case None
    with Cons.prems have "QueueMessageForClient_loop db pkg collector_request client_id
        session_id args (tasks @ [?task])
        (h @ [Datastore_QueueMessageForClient client_id ?task None]) = (r, tasks', h')"
      by (simp add: QueueMessageForClient_loop_Cons Let_def)
    from Cons.IH [OF this] obtain es where es:
      "h' = (h @ [Datastore_QueueMessageForClient client_id ?task None]) @ es"
      "\<forall>e\<in>set es. \<exists>task err.
           e = Datastore_QueueMessageForClient client_id task err \<and> SessionId task = session_id"
      "tasks' = (tasks @ [?task]) @ queued_tasks es"
      "map VQLClientAction (queued_tasks es) = take (length (queued_tasks es)) args"
      "r = None \<longrightarrow> length (queued_tasks es) = length args"
      by blast
    show ?thesis
      using es
      by (intro exI [of _ "Datastore_QueueMessageForClient client_id ?task None # es"]) simp
  qed
qed

lemma persisted_before_queued_skip:
  assumes "\<forall>e\<in>set es. \<exists>task err.
           e = Datastore_QueueMessageForClient client_id task err \<and> SessionId task = session_id"
      and "(client_id, session_id) \<in> set seen"
  shows "persisted_before_queued pkg seen (es @ fs) = persisted_before_queued pkg seen fs"
  using assms by (induction es) auto

lemma queue_events_facts:
  assumes "\<forall>e\<in>set es. \<exists>task err.
           e = Datastore_QueueMessageForClient client_id task err \<and> SessionId task = session_id"
  shows "list_all is_Datastore es" "\<not> list_ex is_failed_session_write es"
  using assms by (induction es) auto

lemma queued_tasks_append:
  "queued_tasks (es @ fs) = queued_tasks es @ queued_tasks fs"
  by (induction es rule: queued_tasks.induct) auto

lemma ScheduleArtifactCollectionFromCollectorArgs_unfold:
  assumes "ClientId collector_request \<noteq> ''''"
      and "NewFlowId pkg rd (ClientId collector_request) (NextFlowIdForTests w) = (sid, nxt)"
  shows "ScheduleArtifactCollectionFromCollectorArgs db pkg rd collector_request args w =
     (let client_id = ClientId collector_request;
          ctx = collection_context collector_request rd sid;
          h1 = trace w @ [Datastore_GetDB (GetDB db (trace w))];
          path = FlowPath pkg client_id sid;
          h2 = trace w @ [Datastore_GetDB None];
          s = SetSubject db h2 path (CollectionContext ctx);
          h3 = h2 @ [Datastore_SetSubject path (CollectionContext ctx) s]
      in case GetDB db (trace w) of
           Some e \<Rightarrow> (('''', Some e), \<lparr>trace = h1, NextFlowIdForTests = nxt\<rparr>)
         | None \<Rightarrow>
            (case s of
               Some e \<Rightarrow> (('''', Some e), \<lparr>trace = h3, NextFlowIdForTests = nxt\<rparr>)
             | None \<Rightarrow>
                (case QueueMessageForClient_loop db pkg collector_request client_id sid args [] h3 of
                   (Some e, tasks, h4) \<Rightarrow> (('''', Some e), \<lparr>trace = h4, NextFlowIdForTests = nxt\<rparr>)
                 | (None, tasks, h4) \<Rightarrow>
                     (let task_path = FlowTaskPath pkg client_id sid;
                          err = SetSubject db h4 task_path (ApiFlowRequestDetails tasks);
                          w5 = \<lparr>trace = h4 @ [Datastore_SetSubject task_path
                                  (ApiFlowRequestDetails tasks) err], NextFlowIdForTests = nxt\<rparr>
                      in case err of
                           Some e \<Rightarrow> (('''', Some e), w5)
                         | None \<Rightarrow> ((sid, None), w5)))))"
  using assms
  by (cases w) (simp add: ScheduleArtifactCollectionFromCollectorArgs_def Let_def
      split: option.splits prod.splits)

lemma ScheduleArtifactCollectionFromCollectorArgs_trace:
  fixes db pkg rd collector_request args w
  defines "R \<equiv> ScheduleArtifactCollectionFromCollectorArgs db pkg rd collector_request args w"
  shows "\<exists>new. trace (snd R) = trace w @ new
     \<and> persisted_before_queued pkg [] new
     \<and> (list_ex is_failed_session_write new \<longrightarrow>
          \<not> list_ex is_QueueMessageForClient new \<and> snd (fst R) \<noteq> None)
     \<and> list_all is_Datastore new
     \<and> map VQLClientAction (queued_tasks new) = take (length (queued_tasks new)) args
     \<and> (snd (fst R) = None \<longrightarrow> map VQLClientAction (queued_tasks new) = args)"
proof (cases "ClientId collector_request = ''''")
  case True
  then have "R = (('''', Some ClientIdNotProvided), w)"
    by (simp add: R_def ScheduleArtifactCollectionFromCollectorArgs_def)
  then show ?thesis by (intro exI [of _ "[]"]) simp
next
  case False
  let ?cid = "ClientId collector_request"
  obtain sid nxt where n: "NewFlowId pkg rd ?cid (NextFlowIdForTests w) = (sid, nxt)"
    by (cases "NewFlowId pkg rd ?cid (NextFlowIdForTests w)")
  note unfold = ScheduleArtifactCollectionFromCollectorArgs_unfold [OF False n, of db args, folded R_def]
  let ?ctx = "collection_context collector_request rd sid"
  have ctx: "ctx_ClientId ?ctx = ?cid" "ctx_SessionId ?ctx = sid"
    by (simp_all add: collection_context_def)
  show ?thesis
  proof (cases "GetDB db (trace w)")
    case (Some e)
    then have "R = (('''', Some e), \<lparr>trace = trace w @ [Datastore_GetDB (Some e)],
        NextFlowIdForTests = nxt\<rparr>)"
      by (simp add: unfold Let_def)
    then show ?thesis by (intro exI [of _ "[Datastore_GetDB (Some e)]"]) simp
  next
    case None
    note db = this
    let ?h2 = "trace w @ [Datastore_GetDB None]"
    let ?p = "FlowPath pkg ?cid sid"
    show ?thesis
    proof (cases "SetSubject db ?h2 ?p (CollectionContext ?ctx)")
      case (Some e)
      then have "R = (('''', Some e), \<lparr>trace = trace w @ [Datastore_GetDB None,
          Datastore_SetSubject ?p (CollectionContext ?ctx) (Some e)], NextFlowIdForTests = nxt\<rparr>)"
        by (simp add: unfold Let_def db)
      then show ?thesis
        by (intro exI [of _ "[Datastore_GetDB None,
          Datastore_SetSubject ?p (CollectionContext ?ctx) (Some e)]"]) simp
    next
      case None
      note s1 = this
      let ?pre = "[Datastore_GetDB None, Datastore_SetSubject ?p (CollectionContext ?ctx) None]"
      let ?h3 = "trace w @ ?pre"
      obtain r tasks h4 where q: "QueueMessageForClient_loop db pkg collector_request ?cid sid
          args [] ?h3 = (r, tasks, h4)"
        by (cases "QueueMessageForClient_loop db pkg collector_request ?cid sid args [] ?h3")
      from QueueMessageForClient_loop_events [OF q] obtain es where es:
        "h4 = ?h3 @ es"
        "\<forall>e\<in>set es. \<exists>task err.
           e = Datastore_QueueMessageForClient ?cid task err \<and> SessionId task = sid"
        "map VQLClientAction (queued_tasks es) = take (length (queued_tasks es)) args"
        "r = None \<longrightarrow> length (queued_tasks es) = length args"
        by blast
      have facts: "persisted_before_queued pkg [] (?pre @ es @ fin)
            = persisted_before_queued pkg [(?cid, sid)] fin"
          "list_ex is_failed_session_write (?pre @ es @ fin) = list_ex is_failed_session_write fin"
          "list_all is_Datastore (?pre @ es @ fin) = list_all is_Datastore fin"
          "queued_tasks (?pre @ es @ fin) = queued_tasks es @ queued_tasks fin" for fin
        using persisted_before_queued_skip [OF es(2), of "[(?cid, sid)]" pkg fin]
          queue_events_facts [OF es(2)]
        by (simp_all add: ctx queued_tasks_append)
      show ?thesis
      proof (cases r)
        case (Some e)
        then have *: "R = (('''', Some e), \<lparr>trace = h4, NextFlowIdForTests = nxt\<rparr>)"
          using q by (simp add: unfold Let_def db s1)
        define new where "new = ?pre @ es"
        with * have R: "trace (snd R) = trace w @ new" "snd (fst R) = Some e"
          using es(1) by simp_all
        have "persisted_before_queued pkg [] new" "\<not> list_ex is_failed_session_write new"
          "list_all is_Datastore new" "queued_tasks new = queued_tasks es"
          using facts [of "[]"] by (simp_all add: new_def)
        then show ?thesis
          by (intro exI [of _ new]) (simp add: R es(3))
      next
        case None
        let ?tp = "FlowTaskPath pkg ?cid sid"
        let ?err = "SetSubject db h4 ?tp (ApiFlowRequestDetails tasks)"
        let ?fin = "[Datastore_SetSubject ?tp (ApiFlowRequestDetails tasks) ?err]"
        from None have "R = ((case ?err of Some e \<Rightarrow> '''' | None \<Rightarrow> sid, ?err),
            \<lparr>trace = h4 @ ?fin, NextFlowIdForTests = nxt\<rparr>)"
          using q by (simp add: unfold Let_def db s1 split: option.splits)
        note * = this
        define new where "new = ?pre @ es @ ?fin"
        with * have R: "trace (snd R) = trace w @ new" "snd (fst R) = ?err"
          using es(1) by simp_all
        have len: "length (queued_tasks es) = length args"
          using es(4) None by simp
        have "persisted_before_queued pkg [] new"
          "list_ex is_failed_session_write new = False"
          "list_all is_Datastore new" "queued_tasks new = queued_tasks es"
          using facts [of ?fin] by (simp_all add: new_def)
        then show ?thesis
          by (intro exI [of _ new]) (simp add: R es(3) len)
      qed
    qed
  qed
qed

text \<open>
  C2. In every call of \<^verbatim>\<open>ScheduleArtifactCollectionFromCollectorArgs\<close> the trace grows
  by the events of the call, and along these events every call that queues a task comes
  after a successful write of the session that the task names, for the same client and at the
  session's path. When the datastore refuses the write of the session, no call queues a task
  and the function returns an error.
\<close>

theorem session_persisted_before_tasks:
  "(let r = ScheduleArtifactCollectionFromCollectorArgs db pkg rd collector_request
              vql_collector_args w;
        new = new_events (trace w) (trace (snd r))
    in trace (snd r) = trace w @ new
       \<and> persisted_before_queued pkg [] new
       \<and> (list_ex is_failed_session_write new \<longrightarrow>
            \<not> list_ex is_QueueMessageForClient new \<and> snd (fst r) \<noteq> None))"
  using ScheduleArtifactCollectionFromCollectorArgs_trace
    [of db pkg rd collector_request vql_collector_args w]
  by (auto simp: Let_def new_events_def)

theorem session_persisted_before_tasks_witness:
  "list_ex is_failed_session_write
     (new_events [] (trace (snd (ScheduleArtifactCollectionFromCollectorArgs
        (example_datastore False) example_packages example_readings
        (example_request ''C.1'' [''A'']) [example_program] example_world))))
   \<and> \<not> list_ex is_QueueMessageForClient
     (new_events [] (trace (snd (ScheduleArtifactCollectionFromCollectorArgs
        (example_datastore False) example_packages example_readings
        (example_request ''C.1'' [''A'']) [example_program] example_world))))
   \<and> map SessionId (queued_tasks
     (new_events [] (trace (snd (ScheduleArtifactCollectionFromCollectorArgs
        (example_datastore True) example_packages example_readings
        (example_request ''C.1'' [''A'']) [example_program] example_world))))) = [''F.1234'']
   \<and> persisted_before_queued example_packages []
     (new_events [] (trace (snd (ScheduleArtifactCollectionFromCollectorArgs
        (example_datastore True) example_packages example_readings
        (example_request ''C.1'' [''A'']) [example_program] example_world))))"
  using session_persisted_before_tasks [of "example_datastore False" example_packages
      example_readings "example_request ''C.1'' [''A'']" "[example_program]" example_world]
    session_persisted_before_tasks [of "example_datastore True" example_packages
      example_readings "example_request ''C.1'' [''A'']" "[example_program]" example_world]
  by (simp add: example_defs sched_defs)

text \<open>
  C9. When the request carries compiled programs (the slice is not \<^verbatim>\<open>nil\<close>),
  \<^verbatim>\<open>ScheduleArtifactCollection\<close> gives the same result and the same world whatever the
  inventory, the repository, the configuration and the principal are; the events of the call
  are calls to the datastore only; the programs of the tasks queued are the first of the
  supplied programs, in their order, and all of them when the call succeeds.
\<close>

theorem precompiled_skips_compiler:
  assumes "CompiledCollectorArgs collector_request = Some args"
  shows "ScheduleArtifactCollection inventory db pkg rd config_obj principal_name repository
            collector_request w
       = ScheduleArtifactCollection inventory' db pkg rd config_obj' principal_name' repository'
            collector_request w
     \<and> (let r = ScheduleArtifactCollection inventory db pkg rd config_obj principal_name
                   repository collector_request w;
             new = new_events (trace w) (trace (snd r))
         in trace (snd r) = trace w @ new
            \<and> list_all is_Datastore new
            \<and> map VQLClientAction (queued_tasks new) = take (length (queued_tasks new)) args
            \<and> (snd (fst r) = None \<longrightarrow> map VQLClientAction (queued_tasks new) = args))"
  using ScheduleArtifactCollectionFromCollectorArgs_trace [of db pkg rd collector_request args w]
    assms
  by (auto simp: Let_def new_events_def ScheduleArtifactCollection_def)

theorem precompiled_skips_compiler_witness:
  "fst (ScheduleArtifactCollection (example_inventory []) (example_datastore True)
      example_packages example_readings example_config ''admin'' (example_repository [])
      ((example_request ''C.1'' [''Unknown''])\<lparr>CompiledCollectorArgs := Some [example_program]\<rparr>)
      example_world) = (''F.1234'', None)
   \<and> map VQLClientAction (queued_tasks (new_events [] (trace (snd
     (ScheduleArtifactCollection (example_inventory []) (example_datastore True)
      example_packages example_readings example_config ''admin'' (example_repository [])
      ((example_request ''C.1'' [''Unknown''])\<lparr>CompiledCollectorArgs := Some [example_program]\<rparr>)
      example_world))))) = [example_program]"
  using precompiled_skips_compiler [of
      "(example_request ''C.1'' [''Unknown''])\<lparr>CompiledCollectorArgs := Some [example_program]\<rparr>"
      "[example_program]" "example_inventory []" "example_datastore True" example_packages
      example_readings example_config "''admin''" "example_repository []" example_world]
  by (simp add: example_defs sched_defs)

subsection \<open>An empty client identifier at the entry point\<close>

text \<open>
  The compiler makes no call to the datastore.
\<close>

lemma is_Datastore_lookup_events [simp]:
  "filter is_Datastore (lookup_events repository allow name) = []"
  by (simp add: lookup_events_def)

lemma EnsureToolsDeclared_loop_no_datastore:
  "EnsureToolsDeclared_loop inventory tools h = (r, h') \<Longrightarrow>
   \<exists>es. h' = h @ es \<and> filter is_Datastore es = []"
proof (induction tools arbitrary: h)
  case Nil then show ?case by simp
next
  case (Cons tool tools)
  show ?case
  proof (cases "GetToolInfo inventory h (Name tool)")
    case (Inr ti)
    with Cons.prems have "EnsureToolsDeclared_loop inventory tools
        (h @ [Inventory_GetToolInfo (Name tool) None]) = (r, h')" by simp
    from Cons.IH [OF this] obtain es where
      "h' = (h @ [Inventory_GetToolInfo (Name tool) None]) @ es" "filter is_Datastore es = []"
      by blast
    then show ?thesis by (intro exI [of _ "Inventory_GetToolInfo (Name tool) None # es"]) simp
  next
    case (Inl err)
    show ?thesis
    proof (cases "AddTool inventory (h @ [Inventory_GetToolInfo (Name tool) (Some err)]) tool")
      case None
      with Inl Cons.prems have "EnsureToolsDeclared_loop inventory tools
        (h @ [Inventory_GetToolInfo (Name tool) (Some err), Inventory_AddTool tool None]) = (r, h')"
        by (simp add: Let_def)
      from Cons.IH [OF this] obtain es where
        "h' = (h @ [Inventory_GetToolInfo (Name tool) (Some err), Inventory_AddTool tool None]) @ es"
        "filter is_Datastore es = []"
        by blast
      then show ?thesis
        by (intro exI [of _ "Inventory_GetToolInfo (Name tool) (Some err) # Inventory_AddTool tool None # es"]) simp
    next
      case (Some e)
      with Inl Cons.prems have "h' = h @ [Inventory_GetToolInfo (Name tool) (Some err), Inventory_AddTool tool (Some e)]"
        by (auto simp add: Let_def)
      then show ?thesis by simp
    qed
  qed
qed

lemma CompileCollectorArgs_loop_no_datastore:
  "CompileCollectorArgs_loop inventory principal_name repository collector_request names args h
     = (r, args', h') \<Longrightarrow>
   \<exists>es. h' = h @ es \<and> filter is_Datastore es = []"
proof (induction names arbitrary: args h)
  case Nil
  then show ?case by simp
next
  case (Cons name names)
  let ?allow = "AllowCustomOverrides collector_request"
  let ?ls = "lookup_events repository ?allow name"
  show ?case
  proof (cases "resolved_artifact repository ?allow name")
    case None
    with Cons.prems have "h' = h @ ?ls"
      by (simp add: CompileCollectorArgs_loop_unknown)
    then show ?thesis by simp
  next
    case (Some a)
    note step = CompileCollectorArgs_loop_known [OF Some]
    show ?thesis
    proof (cases "CheckAccess repository a principal_name")
      case (Some e)
      with Cons.prems have "h' = h @ (?ls @ [Repository_CheckAccess a principal_name (Some e)])"
        by (auto simp: step Let_def)
      then show ?thesis by (intro exI [of _ "?ls @ [Repository_CheckAccess a principal_name (Some e)]"]) simp
    next
      case None
      note acc = this
      obtain err args1 where c: "Compile repository a args = (err, args1)"
        by (cases "Compile repository a args")
      show ?thesis
      proof (cases err)
        case (Some e)
        with Cons.prems have "h' = h @ (?ls @ [Repository_CheckAccess a principal_name None,
            Repository_Compile a (Some e)])"
          by (auto simp: step Let_def acc c)
        then show ?thesis
          by (intro exI [of _ "?ls @ [Repository_CheckAccess a principal_name None,
            Repository_Compile a (Some e)]"]) simp
      next
        case None
        note err = this
        let ?mid = "?ls @ [Repository_CheckAccess a principal_name None, Repository_Compile a None]"
        let ?h4 = "h @ lookup_events repository ?allow name
          @ [Repository_CheckAccess a principal_name None, Repository_Compile a None]"
        obtain e5 h5 where t: "EnsureToolsDeclared inventory a ?h4 = (e5, h5)"
          by (cases "EnsureToolsDeclared inventory a ?h4")
        from t obtain ts where ts: "h5 = ?h4 @ ts" "filter is_Datastore ts = []"
          unfolding EnsureToolsDeclared_def by (blast dest: EnsureToolsDeclared_loop_no_datastore)
        show ?thesis
        proof (cases e5)
          case (Some e)
          with Cons.prems t have "h' = h5" by (simp add: step Let_def acc c err)
          with ts show ?thesis by (intro exI [of _ "?mid @ ts"]) simp
        next
          case None
          with Cons.prems t have "CompileCollectorArgs_loop inventory principal_name repository
              collector_request names args1 h5 = (r, args', h')"
            by (simp add: step Let_def acc c err)
          from Cons.IH [OF this] obtain es where "h' = h5 @ es" "filter is_Datastore es = []"
            by blast
          with ts show ?thesis by (intro exI [of _ "?mid @ ts @ es"]) simp
        qed
      qed
    qed
  qed
qed

lemma AddToolDependency_trace:
  "snd (snd (AddToolDependency inventory config_obj tool args h))
     = h @ [Inventory_GetToolInfo tool
             (case GetToolInfo inventory h tool of Inl e \<Rightarrow> Some e | Inr t \<Rightarrow> None)]"
  by (simp add: AddToolDependency_def Let_def split: sum.splits)

lemma getDependentTools_loop_no_datastore:
  "getDependentTools_loop inventory config_obj tools args h = (r, args', h') \<Longrightarrow>
   \<exists>es. h' = h @ es \<and> filter is_Datastore es = []"
proof (induction tools arbitrary: args h)
  case Nil
  then show ?case by simp
next
  case (Cons tool tools)
  obtain e args1 h1 where a: "AddToolDependency inventory config_obj tool args h = (e, args1, h1)"
    by (cases "AddToolDependency inventory config_obj tool args h")
  let ?ev = "Inventory_GetToolInfo tool
             (case GetToolInfo inventory h tool of Inl e \<Rightarrow> Some e | Inr t \<Rightarrow> None)"
  have h1: "h1 = h @ [?ev]"
    using AddToolDependency_trace [of inventory config_obj tool args h] a by simp
  show ?case
  proof (cases e)
    case (Some x)
    with Cons.prems a have "h' = h1" by simp
    with h1 show ?thesis by simp
  next
    case None
    with Cons.prems a have "getDependentTools_loop inventory config_obj tools args1 h1
        = (r, args', h')" by simp
    from Cons.IH [OF this] obtain es where "h' = h1 @ es" "filter is_Datastore es = []"
      by blast
    with h1 show ?thesis by (intro exI [of _ "?ev # es"]) simp
  qed
qed

lemma CompileCollectorArgs_no_datastore:
  "\<exists>es. snd (CompileCollectorArgs inventory config_obj principal_name repository
             collector_request h) = h @ es
     \<and> filter is_Datastore es = []"
proof -
  let ?args0 = "new_VQLCollectorArgs collector_request"
  obtain e1 args1 h1 where l: "CompileCollectorArgs_loop inventory principal_name repository
      collector_request (Artifacts collector_request) ?args0 h = (e1, args1, h1)"
    by (cases "CompileCollectorArgs_loop inventory principal_name repository
      collector_request (Artifacts collector_request) ?args0 h")
  from CompileCollectorArgs_loop_no_datastore [OF l] obtain es1 where
    es1: "h1 = h @ es1" "filter is_Datastore es1 = []"
    by blast
  show ?thesis
  proof (cases e1)
    case (Some e)
    with l es1 show ?thesis by (simp add: CompileCollectorArgs_def Let_def)
  next
    case None
    note e1 = this
    obtain e2 args2 where p: "PopulateArtifactsVQLCollectorArgs repository args1 = (e2, args2)"
      by (cases "PopulateArtifactsVQLCollectorArgs repository args1")
    let ?pe = "Repository_PopulateArtifactsVQLCollectorArgs e2"
    show ?thesis
    proof (cases e2)
      case (Some e)
      with l e1 p have "snd (CompileCollectorArgs inventory config_obj principal_name repository
             collector_request h) = h1 @ [?pe]"
        by (simp add: CompileCollectorArgs_def Let_def)
      with es1 show ?thesis by (intro exI [of _ "es1 @ [?pe]"]) simp
    next
      case None
      note e2 = this
      let ?args3 = "AddArtifactCollectorArgs args2 collector_request"
      let ?h2 = "h1 @ [Repository_PopulateArtifactsVQLCollectorArgs None]"
      obtain e4 args4 h3 where g: "getDependentTools inventory config_obj ?args3 ?h2
          = (e4, args4, h3)"
        by (cases "getDependentTools inventory config_obj ?args3 ?h2")
      from g obtain es3 where es3: "h3 = ?h2 @ es3" "filter is_Datastore es3 = []"
        unfolding getDependentTools_def by (blast dest: getDependentTools_loop_no_datastore)
      show ?thesis
      proof (cases e4)
        case (Some e)
        with l e1 p e2 g have "snd (CompileCollectorArgs inventory config_obj principal_name
             repository collector_request h) = h3"
          by (simp add: CompileCollectorArgs_def Let_def)
        with es1 es3 show ?thesis
          by (intro exI [of _ "es1 @ Repository_PopulateArtifactsVQLCollectorArgs None # es3"])
             simp
      next
        case None
        obtain e5 args5 where ob: "Obfuscate repository args4 = (e5, args5)"
          by (cases "Obfuscate repository args4")
        with None l e1 p e2 g have "snd (CompileCollectorArgs inventory config_obj principal_name
             repository collector_request h) = h3 @ [Artifacts_Obfuscate e5]"
          by (simp add: CompileCollectorArgs_def Let_def split: option.splits)
        with es1 es3 show ?thesis
          by (intro exI [of _ "es1 @ Repository_PopulateArtifactsVQLCollectorArgs None # es3
                @ [Artifacts_Obfuscate e5]"]) simp
      qed
    qed
  qed
qed

text \<open>
  \<^verbatim>\<open>ScheduleArtifactCollection\<close> checks the client identifier after the compiler has
  run. With an empty client identifier it fails without any call to the datastore; the error
  is that of line 212, unless the request carries no compiled program and the compiler
  fails, in which case it is the compiler's.
\<close>

lemma ScheduleArtifactCollection_empty_client_id:
  assumes "ClientId collector_request = ''''"
  shows "snd (fst (ScheduleArtifactCollection inventory db pkg rd config_obj principal_name
            repository collector_request w))
       = (case CompiledCollectorArgs collector_request of
            Some args \<Rightarrow> Some ClientIdNotProvided
          | None \<Rightarrow>
              (case fst (CompileCollectorArgs inventory config_obj principal_name repository
                      collector_request (trace w)) of
                 Compiled compiled \<Rightarrow> Some ClientIdNotProvided
               | Failed err args \<Rightarrow> Some err))
     \<and> filter is_Datastore (new_events (trace w)
          (trace (snd (ScheduleArtifactCollection inventory db pkg rd config_obj principal_name
            repository collector_request w)))) = []"
proof (cases "CompiledCollectorArgs collector_request")
  case (Some args)
  with assms show ?thesis
    by (simp add: ScheduleArtifactCollection_def new_events_def
        ScheduleArtifactCollectionFromCollectorArgs_def)
next
  case None
  let ?c = "CompileCollectorArgs inventory config_obj principal_name repository
      collector_request (trace w)"
  obtain res h where c: "?c = (res, h)"
    by (cases ?c)
  from CompileCollectorArgs_no_datastore [of inventory config_obj principal_name repository
      collector_request "trace w"] c
  obtain es where es: "h = trace w @ es" "filter is_Datastore es = []"
    by auto
  show ?thesis
    using assms None c es
    by (cases res)
       (simp_all add: ScheduleArtifactCollection_def new_events_def
          ScheduleArtifactCollectionFromCollectorArgs_def)
qed

text \<open>
  C3 (amended). With an empty client identifier,
  \<^verbatim>\<open>ScheduleArtifactCollectionFromCollectorArgs\<close> returns the error of line 212 and
  leaves the world as it was. \<^verbatim>\<open>ScheduleArtifactCollection\<close> returns no session
  identifier and an error, makes no call to the datastore (so no session is written and no
  task is queued) and leaves the identifier set for tests in place; it checks the client
  identifier after the compiler has run, so its error is that of line 212 when the request
  carries compiled programs or the compiler succeeds, and the compiler's error when the
  compiler fails, and the trace has the compiler's events.
\<close>

theorem empty_client_id:
  assumes "ClientId collector_request = ''''"
  shows "ScheduleArtifactCollectionFromCollectorArgs db pkg rd collector_request
            vql_collector_args w = (('''', Some ClientIdNotProvided), w)
     \<and> ScheduleArtifactCollection inventory db pkg rd config_obj principal_name repository
            collector_request w
       = (case CompiledCollectorArgs collector_request of
            Some args \<Rightarrow> (('''', Some ClientIdNotProvided), w)
          | None \<Rightarrow>
              (case CompileCollectorArgs inventory config_obj principal_name repository
                      collector_request (trace w) of
                 (Compiled compiled, h) \<Rightarrow> (('''', Some ClientIdNotProvided), w\<lparr>trace := h\<rparr>)
               | (Failed err args, h) \<Rightarrow> (('''', Some err), w\<lparr>trace := h\<rparr>)))
     \<and> fst (fst (ScheduleArtifactCollection inventory db pkg rd config_obj principal_name
            repository collector_request w)) = ''''
     \<and> snd (fst (ScheduleArtifactCollection inventory db pkg rd config_obj principal_name
            repository collector_request w)) \<noteq> None
     \<and> filter is_Datastore (new_events (trace w)
          (trace (snd (ScheduleArtifactCollection inventory db pkg rd config_obj principal_name
            repository collector_request w)))) = []
     \<and> NextFlowIdForTests (snd (ScheduleArtifactCollection inventory db pkg rd config_obj
            principal_name repository collector_request w)) = NextFlowIdForTests w"
proof -
  let ?s = "ScheduleArtifactCollection inventory db pkg rd config_obj principal_name repository
            collector_request w"
  let ?c = "CompileCollectorArgs inventory config_obj principal_name repository
      collector_request (trace w)"
  have inner: "ScheduleArtifactCollectionFromCollectorArgs db pkg rd collector_request args w'
      = (('''', Some ClientIdNotProvided), w')" for args w'
    using assms by (simp add: ScheduleArtifactCollectionFromCollectorArgs_def)
  have eq: "?s = (case CompiledCollectorArgs collector_request of
            Some args \<Rightarrow> (('''', Some ClientIdNotProvided), w)
          | None \<Rightarrow>
              (case ?c of
                 (Compiled compiled, h) \<Rightarrow> (('''', Some ClientIdNotProvided), w\<lparr>trace := h\<rparr>)
               | (Failed err args, h) \<Rightarrow> (('''', Some err), w\<lparr>trace := h\<rparr>)))"
    by (simp add: ScheduleArtifactCollection_def inner
        split: option.splits prod.splits compile_result.splits)
  obtain res h where c: "?c = (res, h)"
    by (cases ?c)
  have id: "fst (fst ?s) = ''''" and err: "snd (fst ?s) \<noteq> None"
    and nid: "NextFlowIdForTests (snd ?s) = NextFlowIdForTests w"
    unfolding eq c
    by (cases "CompiledCollectorArgs collector_request"; cases res; simp)+
  have "filter is_Datastore (new_events (trace w) (trace (snd ?s))) = []"
    using ScheduleArtifactCollection_empty_client_id [OF assms] by blast
  with inner eq id err nid show ?thesis by blast
qed

theorem empty_client_id_witness:
  "ScheduleArtifactCollectionFromCollectorArgs (example_datastore True) example_packages
      example_readings (example_request [] [''A'']) [example_program] example_world
     = (([], Some ClientIdNotProvided), example_world)
   \<and> ScheduleArtifactCollection (example_inventory [tool_t]) (example_datastore True)
      example_packages example_readings example_config ''admin''
      (example_repository [artifact_A])
      ((example_request [] [''A''])\<lparr>CompiledCollectorArgs := Some [example_program]\<rparr>)
      example_world
     = (([], Some ClientIdNotProvided), example_world)
   \<and> filter is_Datastore (new_events (trace example_world)
        (trace (snd (ScheduleArtifactCollection (example_inventory [tool_t])
          (example_datastore True) example_packages example_readings example_config ''admin''
          (example_repository [artifact_A]) (example_request [] [''A'']) example_world)))) = []"
proof -
  let ?req = "example_request [] [''A'']"
  let ?req' = "(example_request [] [''A''])\<lparr>CompiledCollectorArgs := Some [example_program]\<rparr>"
  have c: "ClientId ?req = []" "ClientId ?req' = []"
    by (simp_all add: example_request_def)
  have p: "CompiledCollectorArgs ?req' = Some [example_program]"
    by simp
  note a = empty_client_id [where collector_request = ?req
      and db = "example_datastore True" and pkg = example_packages and rd = example_readings
      and vql_collector_args = "[example_program]" and w = example_world
      and inventory = "example_inventory [tool_t]" and config_obj = example_config
      and principal_name = "''admin''" and repository = "example_repository [artifact_A]",
      OF c(1)]
  note b = empty_client_id [where collector_request = ?req'
      and db = "example_datastore True" and pkg = example_packages and rd = example_readings
      and vql_collector_args = "[example_program]" and w = example_world
      and inventory = "example_inventory [tool_t]" and config_obj = example_config
      and principal_name = "''admin''" and repository = "example_repository [artifact_A]",
      OF c(2)]
  from b have "ScheduleArtifactCollection (example_inventory [tool_t]) (example_datastore True)
      example_packages example_readings example_config ''admin''
      (example_repository [artifact_A]) ?req' example_world
     = (case CompiledCollectorArgs ?req' of
          Some args \<Rightarrow> (([], Some ClientIdNotProvided), example_world)
        | None \<Rightarrow>
            (case CompileCollectorArgs (example_inventory [tool_t]) example_config ''admin''
                    (example_repository [artifact_A]) ?req' (trace example_world) of
               (Compiled compiled, h) \<Rightarrow>
                 (([], Some ClientIdNotProvided), example_world\<lparr>trace := h\<rparr>)
             | (Failed err args, h) \<Rightarrow> (([], Some err), example_world\<lparr>trace := h\<rparr>)))"
    by blast
  then have "ScheduleArtifactCollection (example_inventory [tool_t]) (example_datastore True)
      example_packages example_readings example_config ''admin''
      (example_repository [artifact_A]) ?req' example_world
     = (([], Some ClientIdNotProvided), example_world)"
    unfolding p by simp
  with a show ?thesis by blast
qed

text \<open>
  C3, as it is stated, fails at the entry point: with an empty client identifier and a name
  that the repository does not know, \<^verbatim>\<open>ScheduleArtifactCollection\<close> returns the error
  \<^verbatim>\<open>Unknown artifact\<close> of line 61, not that of line 212; and with the known artifact
  \<open>A\<close>, whose tool the inventory does not know, the tool has been registered when the error
  of line 212 is returned.
\<close>

theorem empty_client_id_compiler_first:
  "ClientId (example_request [] [''Unknown'']) = []
   \<and> fst (ScheduleArtifactCollection (example_inventory []) (example_datastore True)
        example_packages example_readings example_config ''admin'' (example_repository [])
        (example_request [] [''Unknown'']) example_world)
      = ([], Some (UnknownArtifact ''Unknown''))
   \<and> fst (ScheduleArtifactCollection (example_inventory []) (example_datastore True)
        example_packages example_readings example_config ''admin''
        (example_repository [artifact_A]) (example_request [] [''A'']) example_world)
      = ([], Some ClientIdNotProvided)
   \<and> registered_tools (trace (snd (ScheduleArtifactCollection (example_inventory [])
        (example_datastore True) example_packages example_readings example_config ''admin''
        (example_repository [artifact_A]) (example_request [] [''A'']) example_world)))
      = [tool_t]"
  by (simp add: example_defs eval_defs sched_defs)

end
